theory Spec2Isabelle
  imports Main
begin

section \<open>Data model of the hermes e-mail generator (pkg/mails/hermes.go)\<close>

text \<open>
  Go strings are byte sequences, modelled as \<open>string\<close>. A Go slice is modelled by the list
  of its elements: the nil slice and the empty slice both have length 0 and are both the
  list \<open>[]\<close>. A Go \<open>error\<close> result is \<open>error option\<close>, \<open>None\<close> being \<open>nil\<close>.
\<close>

datatype error = Error string

type_synonym TextDirection = string

type_synonym Markdown = string

type_synonym HTML = string

text \<open>
  \<open>Theme\<close> is an interface with three methods and no state of its own. A theme value is
  modelled by the results of its methods; an interface-typed field is a \<open>Theme option\<close>,
  \<open>None\<close> being the nil interface.
\<close>

record Theme =
  Name :: string
  HTMLTemplate :: string
  PlainTextTemplate :: string

record Branding =
  Name :: string
  Link :: string
  Logo :: string
  Copyright :: string
  TroubleText :: string

record Hermes =
  Theme :: "Theme option"
  Brand :: Branding
  TextDirection :: TextDirection
  DisableCSSInlining :: bool

record Entry =
  Key :: string
  Value :: string

record Columns =
  CustomWidth :: "string \<rightharpoonup> string"
  CustomAlignment :: "string \<rightharpoonup> string"

record Table =
  Data :: "Entry list list"
  Columns :: Columns

record Button =
  Color :: string
  TextColor :: string
  Text :: string
  Link :: string

record Action =
  Instructions :: string
  Button :: Button
  InviteCode :: string

record Body =
  Name :: string
  Intros :: "string list"
  Dictionary :: "Entry list"
  Table :: Table
  Actions :: "Action list"
  Outros :: "string list"
  Greeting :: string
  Signature :: string
  Title :: string
  FreeMarkdown :: Markdown

record Email =
  Body :: Body

record Template =
  Hermes :: Hermes
  Email :: Email

section \<open>Default merging\<close>

text \<open>
  Modelled from the spec: \<open>mergo.Merge(dst, src)\<close> is an external library
  (github.com/imdario/mergo), not under src/. The spec (4.1) and the comments at the two
  call sites ("Default one overrides all zero values") give its contract: every field of
  \<open>dst\<close> that holds its zero value is filled from \<open>src\<close>, a field already set is kept,
  and struct-typed fields are merged field by field. A field of \<open>src\<close> that is itself
  zero (an empty string, a slice of length 0, \<open>false\<close>, a nil interface, a map without
  keys) fills nothing. One function per kind of field follows.
\<close>

definition mergo_string :: "string \<Rightarrow> string \<Rightarrow> string" where
  "mergo_string dst src = (if dst = [] \<and> src \<noteq> [] then src else dst)"

definition mergo_slice :: "'a list \<Rightarrow> 'a list \<Rightarrow> 'a list" where
  "mergo_slice dst src = (if dst = [] \<and> src \<noteq> [] then src else dst)"

definition mergo_bool :: "bool \<Rightarrow> bool \<Rightarrow> bool" where
  "mergo_bool dst src = (if \<not> dst \<and> src then src else dst)"

definition mergo_interface :: "'a option \<Rightarrow> 'a option \<Rightarrow> 'a option" where
  "mergo_interface dst src =
     (case src of
        None \<Rightarrow> dst
      | Some s \<Rightarrow> (case dst of None \<Rightarrow> Some s | Some d \<Rightarrow> Some d))"

definition mergo_map :: "(string \<rightharpoonup> string) \<Rightarrow> (string \<rightharpoonup> string) \<Rightarrow> (string \<rightharpoonup> string)" where
  "mergo_map dst src =
     (\<lambda>k. case src k of
             None \<Rightarrow> dst k
           | Some s \<Rightarrow> (case dst k of None \<Rightarrow> Some s | Some d \<Rightarrow> Some (mergo_string d s)))"

definition mergo_Branding :: "Branding \<Rightarrow> Branding \<Rightarrow> Branding" where
  "mergo_Branding dst src =
     \<lparr> Branding.Name = mergo_string (Branding.Name dst) (Branding.Name src),
       Branding.Link = mergo_string (Branding.Link dst) (Branding.Link src),
       Logo = mergo_string (Logo dst) (Logo src),
       Copyright = mergo_string (Copyright dst) (Copyright src),
       TroubleText = mergo_string (TroubleText dst) (TroubleText src) \<rparr>"

definition mergo_Hermes :: "Hermes \<Rightarrow> Hermes \<Rightarrow> Hermes" where
  "mergo_Hermes dst src =
     \<lparr> Theme = mergo_interface (Theme dst) (Theme src),
       Brand = mergo_Branding (Brand dst) (Brand src),
       TextDirection = mergo_string (TextDirection dst) (TextDirection src),
       DisableCSSInlining = mergo_bool (DisableCSSInlining dst) (DisableCSSInlining src) \<rparr>"

definition mergo_Columns :: "Columns \<Rightarrow> Columns \<Rightarrow> Columns" where
  "mergo_Columns dst src =
     \<lparr> CustomWidth = mergo_map (CustomWidth dst) (CustomWidth src),
       CustomAlignment = mergo_map (CustomAlignment dst) (CustomAlignment src) \<rparr>"

definition mergo_Table :: "Table \<Rightarrow> Table \<Rightarrow> Table" where
  "mergo_Table dst src =
     \<lparr> Data = mergo_slice (Data dst) (Data src),
       Columns = mergo_Columns (Columns dst) (Columns src) \<rparr>"

definition mergo_Body :: "Body \<Rightarrow> Body \<Rightarrow> Body" where
  "mergo_Body dst src =
     \<lparr> Body.Name = mergo_string (Body.Name dst) (Body.Name src),
       Intros = mergo_slice (Intros dst) (Intros src),
       Dictionary = mergo_slice (Dictionary dst) (Dictionary src),
       Table = mergo_Table (Table dst) (Table src),
       Actions = mergo_slice (Actions dst) (Actions src),
       Outros = mergo_slice (Outros dst) (Outros src),
       Greeting = mergo_string (Greeting dst) (Greeting src),
       Signature = mergo_string (Signature dst) (Signature src),
       Title = mergo_string (Title dst) (Title src),
       FreeMarkdown = mergo_string (FreeMarkdown dst) (FreeMarkdown src) \<rparr>"

definition mergo_Email :: "Email \<Rightarrow> Email \<Rightarrow> Email" where
  "mergo_Email dst src = \<lparr> Body = mergo_Body (Body dst) (Body src) \<rparr>"

text \<open>
  For a pointer to a struct and a value of the same struct type, as at both call sites,
  \<open>Merge\<close> returns the nil error. The merged value is left in \<open>*dst\<close>; the model returns
  it beside the error.
\<close>

definition mergo_Merge_Email :: "Email \<Rightarrow> Email \<Rightarrow> error option \<times> Email" where
  "mergo_Merge_Email dst src = (None, mergo_Email dst src)"

definition mergo_Merge_Hermes :: "Hermes \<Rightarrow> Hermes \<Rightarrow> error option \<times> Hermes" where
  "mergo_Merge_Hermes dst src = (None, mergo_Hermes dst src)"

section \<open>The libraries and the built-in theme\<close>

text \<open>
  The calls into html/template, premailer, html2text and blackfriday, and the theme
  \<open>themes.Default\<close> (package pkg/themes of this repository, not under src/), are
  parameters of the model, collected in one record. \<open>'t\<close> is the type of a parsed
  template, \<open>'p\<close> the type of a premailer.
  \<^item> \<open>template_Parse\<close> is \<open>template.New("hermes").Funcs(...).Funcs(...).Funcs(...).Parse(tplt)\<close>,
    with the three function maps of the source;
  \<^item> \<open>template_Execute\<close> is \<open>t.Execute(&b, data)\<close>: it gives the contents of the buffer
    \<open>b\<close> after the call, which may hold partial output, and the error;
  \<^item> \<open>premailer_NewPremailerFromString\<close> is called with \<open>premailer.NewOptions()\<close>;
  \<^item> \<open>html2text_FromString\<close> is called with \<open>Options{PrettyTables: true}\<close>; it gives the
    pair of results as the library returns it.
\<close>

record ('t, 'p) env =
  themes_Default :: Theme
  blackfriday_Run :: "string \<Rightarrow> string"
  template_Parse :: "string \<Rightarrow> error + 't"
  template_Execute :: "'t \<Rightarrow> Template \<Rightarrow> string \<times> error option"
  premailer_NewPremailerFromString :: "string \<Rightarrow> error + 'p"
  premailer_Transform :: "'p \<Rightarrow> string \<times> error option"
  html2text_FromString :: "string \<Rightarrow> string \<times> error option"

section \<open>The functions of hermes.go\<close>

text \<open>
  \<open>ToHTML\<close>: the conversions between \<open>Markdown\<close>, \<open>string\<close>, \<open>[]byte\<close> and
  \<open>template.HTML\<close> keep the bytes as they are.
\<close>

definition ToHTML :: "('t, 'p) env \<Rightarrow> Markdown \<Rightarrow> HTML" where
  "ToHTML env c = blackfriday_Run env c"

text \<open>
  \<open>SetDefaultEmailValues\<close> has a pointer receiver: it returns the error of the merge and
  leaves the merged value in \<open>*e\<close>. The model returns both. The fields the composite
  literal \<open>defaultEmail\<close> does not mention hold their zero values.
\<close>

definition defaultEmail :: Email where
  "defaultEmail =
     \<lparr> Body =
         \<lparr> Body.Name = [],
           Intros = [],
           Dictionary = [],
           Table = \<lparr> Data = [],
                     Columns = \<lparr> CustomWidth = Map.empty, CustomAlignment = Map.empty \<rparr> \<rparr>,
           Actions = [],
           Outros = [],
           Greeting = ''Hi'',
           Signature = ''Yours truly'',
           Title = [],
           FreeMarkdown = [] \<rparr> \<rparr>"

definition SetDefaultEmailValues :: "Email \<Rightarrow> error option \<times> Email" where
  "SetDefaultEmailValues e = mergo_Merge_Email e defaultEmail"

text \<open>
  The default engine configuration. The copyright text contains the two-byte UTF-8
  encoding of the copyright sign, the trouble text the three-byte encoding of the right
  single quotation mark.
\<close>

definition defaultHermes :: "('t, 'p) env \<Rightarrow> Hermes" where
  "defaultHermes env =
     \<lparr> Theme = Some (themes_Default env),
       Brand =
         \<lparr> Branding.Name = ''Hermes'',
           Branding.Link = [],
           Logo = [],
           Copyright = ''Copyright '' @ [CHR 0xC2, CHR 0xA9] @ '' 2024 Hermes. All rights reserved.'',
           TroubleText = ''If you'' @ [CHR 0xE2, CHR 0x80, CHR 0x99]
             @ ''re having trouble with the button '' @ [CHR 0x27] @ ''{ACTION}'' @ [CHR 0x27]
             @ '', copy and paste the URL below into your web browser.'' \<rparr>,
       TextDirection = ''ltr'',
       DisableCSSInlining = False \<rparr>"

definition SetDefaultHermesValues :: "('t, 'p) env \<Rightarrow> Hermes \<Rightarrow> error option \<times> Hermes" where
  "SetDefaultHermesValues env h =
     (case mergo_Merge_Hermes h (defaultHermes env) of
        (Some err, h') \<Rightarrow> (Some err, h')
      | (None, h') \<Rightarrow> (None, h'))"

text \<open>
  Beside its two results, the model of a rendering function gives the library calls the
  function made, in order. A call of one of the two exported functions returns its two
  results or panics (a method call on a nil \<open>Theme\<close>); its model also gives the value of
  the receiver \<open>*h\<close> after the call.
\<close>

datatype ret = Return string "error option" | Panic

datatype call =
    Mergo_Merge_Hermes
  | Mergo_Merge_Email
  | Template_Parse
  | Template_Execute
  | Premailer_NewPremailerFromString
  | Premailer_Transform
  | Html2text_FromString

definition generateTemplate ::
  "('t, 'p) env \<Rightarrow> Hermes \<Rightarrow> Email \<Rightarrow> string \<Rightarrow> (string \<times> error option) \<times> call list" where
  "generateTemplate env h email tplt =
     (case SetDefaultEmailValues email of
        (Some err, email') \<Rightarrow> (([], Some err), [Mergo_Merge_Email])
      | (None, email') \<Rightarrow>
        (case template_Parse env tplt of
           Inl err \<Rightarrow> (([], Some err), [Mergo_Merge_Email, Template_Parse])
         | Inr t \<Rightarrow>
           (case template_Execute env t \<lparr> Hermes = h, Email = email' \<rparr> of
              (b, Some err) \<Rightarrow>
                (([], Some err), [Mergo_Merge_Email, Template_Parse, Template_Execute])
            | (res, None) \<Rightarrow>
                if DisableCSSInlining h
                then ((res, None), [Mergo_Merge_Email, Template_Parse, Template_Execute])
                else
                  (case premailer_NewPremailerFromString env res of
                     Inl err \<Rightarrow>
                       (([], Some err),
                        [Mergo_Merge_Email, Template_Parse, Template_Execute,
                         Premailer_NewPremailerFromString])
                   | Inr prem \<Rightarrow>
                       (case premailer_Transform env prem of
                          (html, Some err) \<Rightarrow>
                            (([], Some err),
                             [Mergo_Merge_Email, Template_Parse, Template_Execute,
                              Premailer_NewPremailerFromString, Premailer_Transform])
                        | (html, None) \<Rightarrow>
                            ((html, None),
                             [Mergo_Merge_Email, Template_Parse, Template_Execute,
                              Premailer_NewPremailerFromString, Premailer_Transform]))))))"

record outcome =
  result :: ret
  receiver :: Hermes
  calls :: "call list"

definition GenerateHTML :: "('t, 'p) env \<Rightarrow> Hermes \<Rightarrow> Email \<Rightarrow> outcome" where
  "GenerateHTML env h email =
     (case SetDefaultHermesValues env h of
        (Some err, h') \<Rightarrow>
          \<lparr> result = Return [] (Some err), receiver = h', calls = [Mergo_Merge_Hermes] \<rparr>
      | (None, h') \<Rightarrow>
          (case Theme h' of
             None \<Rightarrow> \<lparr> result = Panic, receiver = h', calls = [Mergo_Merge_Hermes] \<rparr>
           | Some theme \<Rightarrow>
               (case generateTemplate env h' email (HTMLTemplate theme) of
                  ((html, err), cs) \<Rightarrow>
                    \<lparr> result = Return html err, receiver = h',
                      calls = Mergo_Merge_Hermes # cs \<rparr>)))"

definition GeneratePlainText :: "('t, 'p) env \<Rightarrow> Hermes \<Rightarrow> Email \<Rightarrow> outcome" where
  "GeneratePlainText env h email =
     (case SetDefaultHermesValues env h of
        (Some err, h') \<Rightarrow>
          \<lparr> result = Return [] (Some err), receiver = h', calls = [Mergo_Merge_Hermes] \<rparr>
      | (None, h') \<Rightarrow>
          (case Theme h' of
             None \<Rightarrow> \<lparr> result = Panic, receiver = h', calls = [Mergo_Merge_Hermes] \<rparr>
           | Some theme \<Rightarrow>
               (case generateTemplate env h' email (PlainTextTemplate theme) of
                  ((template, Some err), cs) \<Rightarrow>
                    \<lparr> result = Return [] (Some err), receiver = h',
                      calls = Mergo_Merge_Hermes # cs \<rparr>
                | ((template, None), cs) \<Rightarrow>
                    (case html2text_FromString env template of
                       (text, err) \<Rightarrow>
                         \<lparr> result = Return text err, receiver = h',
                           calls = Mergo_Merge_Hermes # cs @ [Html2text_FromString] \<rparr>))))"

text \<open>
  A caller holds an engine configuration and an e-mail in two variables and calls
  \<open>h.GenerateHTML(email)\<close>, as \<open>generateEmails\<close> of the example program does: the receiver
  is passed by address, so the callee's writes to \<open>*h\<close> reach the caller's variable; the
  e-mail is passed by value, and the callee's writes go to its own copy.
\<close>

record caller =
  h_var :: Hermes
  email_var :: Email

definition call_GenerateHTML :: "('t, 'p) env \<Rightarrow> caller \<Rightarrow> ret \<times> caller" where
  "call_GenerateHTML env c =
     (let r = GenerateHTML env (h_var c) (email_var c)
      in (result r, c\<lparr> h_var := receiver r \<rparr>))"

definition call_GeneratePlainText :: "('t, 'p) env \<Rightarrow> caller \<Rightarrow> ret \<times> caller" where
  "call_GeneratePlainText env c =
     (let r = GeneratePlainText env (h_var c) (email_var c)
      in (result r, c\<lparr> h_var := receiver r \<rparr>))"

section \<open>The e-mail in memory\<close>

text \<open>
  An \<open>Email\<close> is passed by value, but the copy is shallow: a slice field of the copy has
  the same backing array as the caller's, a map field denotes the same map. To state what
  a call does to the caller's e-mail, the functions that receive the e-mail are modelled
  a second time on e-mails in memory: a slice field holds a slice header (nil, or the
  address of an array and a length), a map field holds nil or the address of a map, and
  a store holds the arrays and the maps, and the next free address for a map that a
  merge creates. Strings are immutable in Go and stay values. The engine configuration
  has no slice and no map and is the value of the first model.
\<close>

type_synonym addr = nat

datatype slice = NilSlice | Slice addr nat

fun slice_len :: "slice \<Rightarrow> nat" where
  "slice_len NilSlice = 0"
| "slice_len (Slice a n) = n"

record store =
  string_arrays :: "addr \<rightharpoonup> string list"
  entry_arrays :: "addr \<rightharpoonup> Entry list"
  action_arrays :: "addr \<rightharpoonup> Action list"
  slice_arrays :: "addr \<rightharpoonup> slice list"
  map_objects :: "addr \<rightharpoonup> (string \<rightharpoonup> string)"
  next_addr :: addr

record Columns_mem =
  CustomWidth_ref :: "addr option"
  CustomAlignment_ref :: "addr option"

record Table_mem =
  Data_slice :: slice
  Columns_mem :: Columns_mem

record Body_mem =
  Name_mem :: string
  Intros_slice :: slice
  Dictionary_slice :: slice
  Table_mem :: Table_mem
  Actions_slice :: slice
  Outros_slice :: slice
  Greeting_mem :: string
  Signature_mem :: string
  Title_mem :: string
  FreeMarkdown_mem :: Markdown

record Email_mem =
  Body_mem :: Body_mem


definition read_map :: "store \<Rightarrow> addr option \<Rightarrow> (string \<rightharpoonup> string)" where
  "read_map st r =
     (case r of
        None \<Rightarrow> Map.empty
      | Some a \<Rightarrow> (case map_objects st a of None \<Rightarrow> Map.empty | Some m \<Rightarrow> m))"


text \<open>
  Modelled from the spec: \<open>mergo.Merge\<close> again, on a destination in memory. Filling a slice
  field assigns the slice header of the destination and writes no array. Merging a map
  field with a source map that is not nil writes into the map of the destination, which
  is created first when the destination is nil: every key of the source that the
  destination lacks, or holds with an empty value, is set. With a nil source nothing
  is written. Strings are merged as before.
\<close>

definition mergo_slice_mem :: "slice \<Rightarrow> slice \<Rightarrow> slice" where
  "mergo_slice_mem dst src = (if slice_len dst = 0 \<and> slice_len src \<noteq> 0 then src else dst)"

definition mergo_map_mem :: "store \<Rightarrow> addr option \<Rightarrow> addr option \<Rightarrow> addr option \<times> store" where
  "mergo_map_mem st dst src =
     (case src of
        None \<Rightarrow> (dst, st)
      | Some s \<Rightarrow>
          (case dst of
             None \<Rightarrow>
               (Some (next_addr st),
                st\<lparr> map_objects := (map_objects st)
                      (next_addr st \<mapsto> mergo_map Map.empty (read_map st (Some s))),
                    next_addr := Suc (next_addr st) \<rparr>)
           | Some d \<Rightarrow>
               (Some d,
                st\<lparr> map_objects := (map_objects st)
                      (d \<mapsto> mergo_map (read_map st (Some d)) (read_map st (Some s))) \<rparr>)))"

definition mergo_Columns_mem :: "store \<Rightarrow> Columns_mem \<Rightarrow> Columns_mem \<Rightarrow> Columns_mem \<times> store" where
  "mergo_Columns_mem st dst src =
     (case mergo_map_mem st (CustomWidth_ref dst) (CustomWidth_ref src) of
        (w, st1) \<Rightarrow>
          (case mergo_map_mem st1 (CustomAlignment_ref dst) (CustomAlignment_ref src) of
             (a, st2) \<Rightarrow> (\<lparr> CustomWidth_ref = w, CustomAlignment_ref = a \<rparr>, st2)))"

definition mergo_Table_mem :: "store \<Rightarrow> Table_mem \<Rightarrow> Table_mem \<Rightarrow> Table_mem \<times> store" where
  "mergo_Table_mem st dst src =
     (case mergo_Columns_mem st (Columns_mem dst) (Columns_mem src) of
        (c, st1) \<Rightarrow>
          (\<lparr> Data_slice = mergo_slice_mem (Data_slice dst) (Data_slice src), Columns_mem = c \<rparr>,
           st1))"

definition mergo_Body_mem :: "store \<Rightarrow> Body_mem \<Rightarrow> Body_mem \<Rightarrow> Body_mem \<times> store" where
  "mergo_Body_mem st dst src =
     (case mergo_Table_mem st (Table_mem dst) (Table_mem src) of
        (t, st1) \<Rightarrow>
          (\<lparr> Name_mem = mergo_string (Name_mem dst) (Name_mem src),
             Intros_slice = mergo_slice_mem (Intros_slice dst) (Intros_slice src),
             Dictionary_slice = mergo_slice_mem (Dictionary_slice dst) (Dictionary_slice src),
             Table_mem = t,
             Actions_slice = mergo_slice_mem (Actions_slice dst) (Actions_slice src),
             Outros_slice = mergo_slice_mem (Outros_slice dst) (Outros_slice src),
             Greeting_mem = mergo_string (Greeting_mem dst) (Greeting_mem src),
             Signature_mem = mergo_string (Signature_mem dst) (Signature_mem src),
             Title_mem = mergo_string (Title_mem dst) (Title_mem src),
             FreeMarkdown_mem = mergo_string (FreeMarkdown_mem dst) (FreeMarkdown_mem src) \<rparr>,
           st1))"

definition mergo_Merge_Email_mem ::
  "store \<Rightarrow> Email_mem \<Rightarrow> Email_mem \<Rightarrow> (error option \<times> Email_mem) \<times> store" where
  "mergo_Merge_Email_mem st dst src =
     (case mergo_Body_mem st (Body_mem dst) (Body_mem src) of
        (b, st1) \<Rightarrow> ((None, \<lparr> Body_mem = b \<rparr>), st1))"

text \<open>
  The three functions that receive the e-mail, statement by statement as in the first
  model, with the store passed along. The literals \<open>[]string{}\<close> and \<open>[]Entry{}\<close> of
  \<open>defaultEmail\<close> are slices of length 0 (on the zero-size array at \<open>zerobase\<close>), the
  fields the literal does not mention are nil.
\<close>

definition zerobase :: addr where
  "zerobase = 0"

definition defaultEmail_mem :: Email_mem where
  "defaultEmail_mem =
     \<lparr> Body_mem =
         \<lparr> Name_mem = [],
           Intros_slice = Slice zerobase 0,
           Dictionary_slice = Slice zerobase 0,
           Table_mem =
             \<lparr> Data_slice = NilSlice,
               Columns_mem = \<lparr> CustomWidth_ref = None, CustomAlignment_ref = None \<rparr> \<rparr>,
           Actions_slice = NilSlice,
           Outros_slice = Slice zerobase 0,
           Greeting_mem = ''Hi'',
           Signature_mem = ''Yours truly'',
           Title_mem = [],
           FreeMarkdown_mem = [] \<rparr> \<rparr>"

definition SetDefaultEmailValues_mem ::
  "store \<Rightarrow> Email_mem \<Rightarrow> (error option \<times> Email_mem) \<times> store" where
  "SetDefaultEmailValues_mem st e = mergo_Merge_Email_mem st e defaultEmail_mem"







section \<open>Predicates and sample values used in the statements\<close>

text \<open>
  A value is fully populated when every field that has a default holds a non-zero value.
  The three slices of the e-mail body have the empty slice as their default, so they
  put no condition on the body.
\<close>

definition populated_Email :: "Email \<Rightarrow> bool" where
  "populated_Email e = (Greeting (Body e) \<noteq> [] \<and> Signature (Body e) \<noteq> [])"

definition populated_Hermes :: "Hermes \<Rightarrow> bool" where
  "populated_Hermes h =
     (Theme h \<noteq> None \<and> TextDirection h \<noteq> [] \<and> Branding.Name (Brand h) \<noteq> [] \<and>
      Copyright (Brand h) \<noteq> [] \<and> TroubleText (Brand h) \<noteq> [])"

text \<open>The Go zero values \<open>Email{}\<close> and \<open>Hermes{}\<close>, and values built from them.\<close>

definition zero_Email :: Email where
  "zero_Email =
     \<lparr> Body =
         \<lparr> Body.Name = [], Intros = [], Dictionary = [],
           Table = \<lparr> Data = [],
                     Columns = \<lparr> CustomWidth = Map.empty, CustomAlignment = Map.empty \<rparr> \<rparr>,
           Actions = [], Outros = [], Greeting = [], Signature = [], Title = [],
           FreeMarkdown = [] \<rparr> \<rparr>"

definition zero_Hermes :: Hermes where
  "zero_Hermes =
     \<lparr> Theme = None,
       Brand = \<lparr> Branding.Name = [], Branding.Link = [], Logo = [], Copyright = [],
                 TroubleText = [] \<rparr>,
       TextDirection = [],
       DisableCSSInlining = False \<rparr>"

definition partial_Email :: Email where
  "partial_Email =
     zero_Email\<lparr> Body := (Body zero_Email)
       \<lparr> Body.Name := ''Jon Snow'', Intros := [''Welcome!''], Greeting := ''Dear'' \<rparr> \<rparr>"

definition partial_Hermes :: Hermes where
  "partial_Hermes =
     zero_Hermes\<lparr> Brand := (Brand zero_Hermes)
                    \<lparr> Branding.Name := ''Acme'',
                      Branding.Link := ''https://example-hermes.com/'' \<rparr>,
                  DisableCSSInlining := True \<rparr>"

definition full_Email :: Email where
  "full_Email =
     zero_Email\<lparr> Body := (Body zero_Email)\<lparr> Greeting := ''Dear'', Signature := ''Best'' \<rparr> \<rparr>"

definition full_Hermes :: Hermes where
  "full_Hermes =
     \<lparr> Theme = Some \<lparr> Theme.Name = ''flat'', HTMLTemplate = ''<b>x</b>'',
                      PlainTextTemplate = ''x'' \<rparr>,
       Brand = \<lparr> Branding.Name = ''Acme'', Branding.Link = [], Logo = [],
                 Copyright = ''(c) Acme'', TroubleText = ''Trouble?'' \<rparr>,
       TextDirection = ''rtl'',
       DisableCSSInlining = False \<rparr>"

definition inlining_disabled_Hermes :: Hermes where
  "inlining_disabled_Hermes = zero_Hermes\<lparr> DisableCSSInlining := True \<rparr>"

definition broken_Hermes :: Hermes where
  "broken_Hermes =
     zero_Hermes\<lparr> Theme := Some \<lparr> Theme.Name = ''broken'', HTMLTemplate = ''{{'',
                                    PlainTextTemplate = ''{{'' \<rparr> \<rparr>"

text \<open>
  A small instance of the library parameters, to evaluate the functions at concrete
  inputs: the parser rejects the text \<open>{{\<close> (an unclosed action), execution appends the
  greeting to the template text, the premailer wraps its input, the text converter and
  the markdown renderer never fail. \<open>failing_html2text_env\<close> differs in the text
  converter, which fails on every input.
\<close>

definition sample_env :: "(string, string) env" where
  "sample_env =
     \<lparr> themes_Default =
         \<lparr> Theme.Name = ''default'', HTMLTemplate = ''<p>html</p>'',
           PlainTextTemplate = ''<p>text</p>'' \<rparr>,
       blackfriday_Run = (\<lambda>s. ''<p>'' @ s @ ''</p>''),
       template_Parse =
         (\<lambda>s. if s = ''{{'' then Inl (Error ''unclosed action'') else Inr s),
       template_Execute = (\<lambda>t d. (t @ Greeting (Body (Email d)), None)),
       premailer_NewPremailerFromString = (\<lambda>s. Inr s),
       premailer_Transform = (\<lambda>p. (''<html>'' @ p @ ''</html>'', None)),
       html2text_FromString = (\<lambda>s. (s, None)) \<rparr>"

definition failing_html2text_env :: "(string, string) env" where
  "failing_html2text_env =
     sample_env\<lparr> html2text_FromString := (\<lambda>s. ([], Some (Error ''html2text''))) \<rparr>"


definition sample_Email_mem :: Email_mem where
  "sample_Email_mem =
     \<lparr> Body_mem =
         \<lparr> Name_mem = ''Jon Snow'',
           Intros_slice = Slice 1 1,
           Dictionary_slice = NilSlice,
           Table_mem =
             \<lparr> Data_slice = NilSlice,
               Columns_mem = \<lparr> CustomWidth_ref = Some 2, CustomAlignment_ref = None \<rparr> \<rparr>,
           Actions_slice = NilSlice,
           Outros_slice = NilSlice,
           Greeting_mem = [],
           Signature_mem = [],
           Title_mem = [],
           FreeMarkdown_mem = [] \<rparr> \<rparr>"

definition keyed_Email_mem :: Email_mem where
  "keyed_Email_mem =
     defaultEmail_mem\<lparr> Body_mem := (Body_mem defaultEmail_mem)
       \<lparr> Table_mem := \<lparr> Data_slice = NilSlice,
                         Columns_mem = \<lparr> CustomWidth_ref = Some 1,
                                         CustomAlignment_ref = None \<rparr> \<rparr> \<rparr> \<rparr>"

definition keyed_heap :: store where
  "keyed_heap =
     \<lparr> string_arrays = Map.empty,
       entry_arrays = Map.empty,
       action_arrays = Map.empty,
       slice_arrays = Map.empty,
       map_objects = [1 \<mapsto> [''price'' \<mapsto> ''20%''], 2 \<mapsto> Map.empty],
       next_addr = 3 \<rparr>"

section \<open>Auxiliary facts\<close>

lemma SetDefaultEmailValues_eq:
  "SetDefaultEmailValues e = (None, mergo_Email e defaultEmail)"
  by (simp add: SetDefaultEmailValues_def mergo_Merge_Email_def)

lemma SetDefaultHermesValues_eq:
  "SetDefaultHermesValues env h = (None, mergo_Hermes h (defaultHermes env))"
  by (simp add: SetDefaultHermesValues_def mergo_Merge_Hermes_def)

lemma Theme_merged:
  "Theme (mergo_Hermes h (defaultHermes env)) =
     Some (case Theme h of None \<Rightarrow> themes_Default env | Some t \<Rightarrow> t)"
  by (simp add: mergo_Hermes_def defaultHermes_def mergo_interface_def split: option.splits)

lemma DisableCSSInlining_merged:
  "DisableCSSInlining (mergo_Hermes h (defaultHermes env)) = DisableCSSInlining h"
  by (simp add: mergo_Hermes_def defaultHermes_def mergo_bool_def)

lemma receiver_GenerateHTML:
  "receiver (GenerateHTML env h email) = mergo_Hermes h (defaultHermes env)"
  by (simp add: GenerateHTML_def SetDefaultHermesValues_eq Theme_merged split: prod.splits)

lemma receiver_GeneratePlainText:
  "receiver (GeneratePlainText env h email) = mergo_Hermes h (defaultHermes env)"
  by (simp add: GeneratePlainText_def SetDefaultHermesValues_eq Theme_merged
      split: prod.splits option.splits)

lemma mergo_string_idem: "mergo_string (mergo_string d s) s = mergo_string d s"
  by (simp add: mergo_string_def)

lemma mergo_slice_idem: "mergo_slice (mergo_slice d s) s = mergo_slice d s"
  by (simp add: mergo_slice_def)

lemma mergo_bool_idem: "mergo_bool (mergo_bool d s) s = mergo_bool d s"
  by (simp add: mergo_bool_def)

lemma mergo_interface_idem: "mergo_interface (mergo_interface d s) s = mergo_interface d s"
  by (simp add: mergo_interface_def split: option.splits)

lemma mergo_map_idem: "mergo_map (mergo_map d s) s = mergo_map d s"
  by (rule ext) (simp add: mergo_map_def mergo_string_def split: option.splits)

lemma mergo_map_empty: "mergo_map d Map.empty = d"
  by (rule ext) (simp add: mergo_map_def)

lemma mergo_Hermes_idem: "mergo_Hermes (mergo_Hermes d s) s = mergo_Hermes d s"
  by (simp add: mergo_Hermes_def mergo_Branding_def mergo_string_idem mergo_bool_idem
      mergo_interface_idem)

lemma mergo_Email_idem: "mergo_Email (mergo_Email d s) s = mergo_Email d s"
  by (simp add: mergo_Email_def mergo_Body_def mergo_Table_def mergo_Columns_def
      mergo_string_idem mergo_slice_idem mergo_map_idem)

lemma mergo_Email_populated:
  "populated_Email e \<Longrightarrow> mergo_Email e defaultEmail = e"
  by (simp add: populated_Email_def mergo_Email_def mergo_Body_def mergo_Table_def
      mergo_Columns_def defaultEmail_def mergo_string_def mergo_slice_def mergo_map_empty)

lemma mergo_Hermes_populated:
  "populated_Hermes h \<Longrightarrow> mergo_Hermes h (defaultHermes env) = h"
  by (auto simp add: populated_Hermes_def mergo_Hermes_def mergo_Branding_def defaultHermes_def
      mergo_string_def mergo_bool_def mergo_interface_def)

lemma defaultHermes_premailer_update:
  "defaultHermes
     (env\<lparr> premailer_NewPremailerFromString := new, premailer_Transform := transform \<rparr>)
     = defaultHermes env"
  by (simp add: defaultHermes_def)

text \<open>With CSS inlining disabled, \<open>generateTemplate\<close> ends after the execution of the template.\<close>

lemma generateTemplate_disabled:
  "DisableCSSInlining h \<Longrightarrow>
   generateTemplate env h email tplt =
     (case template_Parse env tplt of
        Inl err \<Rightarrow> (([], Some err), [Mergo_Merge_Email, Template_Parse])
      | Inr t \<Rightarrow>
          (case template_Execute env t \<lparr> Hermes = h, Email = snd (SetDefaultEmailValues email) \<rparr> of
             (b, Some err) \<Rightarrow>
               (([], Some err), [Mergo_Merge_Email, Template_Parse, Template_Execute])
           | (res, None) \<Rightarrow>
               ((res, None), [Mergo_Merge_Email, Template_Parse, Template_Execute])))"
  by (simp add: generateTemplate_def SetDefaultEmailValues_eq
      split: sum.splits prod.splits option.splits)

text \<open>Every error return of \<open>generateTemplate\<close> carries the empty string.\<close>

lemma generateTemplate_error_empty:
  "generateTemplate env h email tplt = ((s, Some err), cs) \<Longrightarrow> s = []"
  by (auto simp add: generateTemplate_def SetDefaultEmailValues_eq
      split: prod.splits option.splits sum.splits if_splits)

text \<open>After the merge the theme is never nil, so neither exported function panics.\<close>

lemma GenerateHTML_returns: "\<exists>s e. result (GenerateHTML env h email) = Return s e"
  by (simp add: GenerateHTML_def SetDefaultHermesValues_eq Theme_merged split: prod.splits)

lemma GeneratePlainText_returns: "\<exists>s e. result (GeneratePlainText env h email) = Return s e"
  by (simp add: GeneratePlainText_def SetDefaultHermesValues_eq Theme_merged
      split: prod.splits option.splits)

text \<open>Facts on the e-mail in memory.\<close>

lemma mergo_map_mem_nil_src: "mergo_map_mem st dst None = (dst, st)"
  by (simp add: mergo_map_mem_def)



lemma SetDefaultEmailValues_mem_store: "snd (SetDefaultEmailValues_mem st e) = st"
  by (simp add: SetDefaultEmailValues_mem_def mergo_Merge_Email_mem_def mergo_Body_mem_def
      mergo_Table_mem_def mergo_Columns_mem_def mergo_map_mem_nil_src defaultEmail_mem_def)






text \<open>
  The second model can express a write through a shared map: merging an e-mail whose
  column widths are the (empty) map at address 2 with a source whose column widths have
  the key \<open>price\<close> sets that key in the map at address 2.
\<close>

lemma merge_writes_shared_map:
  "map_objects (snd (mergo_Merge_Email_mem keyed_heap
      (sample_Email_mem\<lparr> Body_mem := (Body_mem sample_Email_mem)
         \<lparr> Table_mem := \<lparr> Data_slice = NilSlice,
                           Columns_mem = \<lparr> CustomWidth_ref = Some 2,
                                           CustomAlignment_ref = None \<rparr> \<rparr> \<rparr> \<rparr>)
      keyed_Email_mem)) 2 = Some [''price'' \<mapsto> ''20%''] \<and>
   map_objects keyed_heap 2 = Some Map.empty"
  by (simp add: mergo_Merge_Email_mem_def mergo_Body_mem_def mergo_Table_mem_def
      mergo_Columns_mem_def mergo_map_mem_def keyed_heap_def keyed_Email_mem_def
      sample_Email_mem_def defaultEmail_mem_def read_map_def mergo_map_def fun_eq_iff)

lemmas sample_simps =
  SetDefaultHermesValues_eq SetDefaultEmailValues_eq mergo_Hermes_def mergo_Branding_def
  mergo_Email_def mergo_Body_def mergo_Table_def mergo_Columns_def mergo_string_def
  mergo_slice_def mergo_bool_def mergo_interface_def mergo_map_empty defaultHermes_def
  defaultEmail_def zero_Hermes_def zero_Email_def sample_env_def broken_Hermes_def
  inlining_disabled_Hermes_def failing_html2text_env_def
  GenerateHTML_def GeneratePlainText_def generateTemplate_def

section \<open>The claims\<close>

subsection \<open>C1: the steps of GeneratePlainText\<close>

text \<open>
  C1 as stated fails. The claim says that \<open>GeneratePlainText\<close> performs exactly the steps
  merge engine defaults, merge e-mail defaults, render the plain-text template, convert
  to plain text, and that CSS inlining is no part of the plain-text path. For the zero
  configuration and the zero e-mail the calls made are the seven below: between the
  execution of the template and the conversion to text the premailer is created and
  run, and the text converter receives the premailer's output.
\<close>

theorem GeneratePlainText_inlines_CSS_counterexample:
  "calls (GeneratePlainText sample_env zero_Hermes zero_Email) =
     [Mergo_Merge_Hermes, Mergo_Merge_Email, Template_Parse, Template_Execute,
      Premailer_NewPremailerFromString, Premailer_Transform, Html2text_FromString] \<and>
   calls (GeneratePlainText sample_env zero_Hermes zero_Email) \<noteq>
     [Mergo_Merge_Hermes, Mergo_Merge_Email, Template_Parse, Template_Execute,
      Html2text_FromString] \<and>
   result (GeneratePlainText sample_env zero_Hermes zero_Email) =
     Return ''<html><p>text</p>Hi</html>'' None"
  by (simp add: sample_simps)

text \<open>
  C1, amended: \<open>GeneratePlainText\<close> merges the engine defaults, merges the e-mail
  defaults, renders the plain-text template, inlines CSS into the rendered result unless
  \<open>DisableCSSInlining\<close> is set (the step it shares with the HTML path), converts the
  result to plain text and returns what the converter returns. Stated for a run in which
  the template parses and executes: with inlining disabled the converter is applied to
  the rendered text and five calls are made; with inlining enabled and a premailer that
  succeeds, the converter is applied to the premailer's output and seven calls are made.
\<close>

theorem GeneratePlainText_steps:
  assumes "Theme (snd (SetDefaultHermesValues env h)) = Some theme"
    and "template_Parse env (PlainTextTemplate theme) = Inr t"
    and "template_Execute env t
           \<lparr> Hermes = snd (SetDefaultHermesValues env h),
             Email = snd (SetDefaultEmailValues email) \<rparr> = (res, None)"
  shows "(DisableCSSInlining h \<longrightarrow>
            result (GeneratePlainText env h email) =
              Return (fst (html2text_FromString env res)) (snd (html2text_FromString env res)) \<and>
            calls (GeneratePlainText env h email) =
              [Mergo_Merge_Hermes, Mergo_Merge_Email, Template_Parse, Template_Execute,
               Html2text_FromString]) \<and>
         (\<not> DisableCSSInlining h \<and>
          premailer_NewPremailerFromString env res = Inr prem \<and>
          premailer_Transform env prem = (html, None) \<longrightarrow>
            result (GeneratePlainText env h email) =
              Return (fst (html2text_FromString env html))
                (snd (html2text_FromString env html)) \<and>
            calls (GeneratePlainText env h email) =
              [Mergo_Merge_Hermes, Mergo_Merge_Email, Template_Parse, Template_Execute,
               Premailer_NewPremailerFromString, Premailer_Transform, Html2text_FromString])"
  using assms
  by (simp add: GeneratePlainText_def generateTemplate_def SetDefaultHermesValues_eq
      SetDefaultEmailValues_eq DisableCSSInlining_merged split: prod.splits)

text \<open>
  The amended C1 at the zero e-mail, once with inlining enabled (the zero configuration)
  and once with inlining disabled.
\<close>

theorem GeneratePlainText_steps_witness:
  "result (GeneratePlainText sample_env zero_Hermes zero_Email) =
     Return ''<html><p>text</p>Hi</html>'' None \<and>
   calls (GeneratePlainText sample_env zero_Hermes zero_Email) =
     [Mergo_Merge_Hermes, Mergo_Merge_Email, Template_Parse, Template_Execute,
      Premailer_NewPremailerFromString, Premailer_Transform, Html2text_FromString] \<and>
   result (GeneratePlainText sample_env inlining_disabled_Hermes zero_Email) =
     Return ''<p>text</p>Hi'' None \<and>
   calls (GeneratePlainText sample_env inlining_disabled_Hermes zero_Email) =
     [Mergo_Merge_Hermes, Mergo_Merge_Email, Template_Parse, Template_Execute,
      Html2text_FromString]"
  using
    GeneratePlainText_steps [where env = sample_env and h = zero_Hermes
      and theme = "themes_Default sample_env" and t = "''<p>text</p>''"
      and email = zero_Email and res = "''<p>text</p>Hi''" and prem = "''<p>text</p>Hi''"
      and html = "''<html><p>text</p>Hi</html>''"]
    GeneratePlainText_steps [where env = sample_env and h = inlining_disabled_Hermes
      and theme = "themes_Default sample_env" and t = "''<p>text</p>''"
      and email = zero_Email and res = "''<p>text</p>Hi''" and prem = "''<p>text</p>Hi''"
      and html = "''<html><p>text</p>Hi</html>''"]
  by (simp add: SetDefaultHermesValues_eq SetDefaultEmailValues_eq mergo_Hermes_def
      mergo_Branding_def mergo_Email_def mergo_Body_def mergo_Table_def mergo_Columns_def
      mergo_string_def mergo_slice_def mergo_bool_def mergo_interface_def mergo_map_empty
      defaultHermes_def defaultEmail_def zero_Hermes_def zero_Email_def sample_env_def
      inlining_disabled_Hermes_def)

subsection \<open>C2: the caller's engine configuration\<close>

text \<open>
  C2 as stated fails. The claim says that a call of \<open>GenerateHTML\<close> or
  \<open>GeneratePlainText\<close> leaves the caller-supplied engine configuration unchanged. Both
  have a pointer receiver and merge the defaults into \<open>*h\<close>: a caller holding the zero
  configuration holds a different one after the call, with text direction \<open>ltr\<close>.
\<close>

theorem caller_Hermes_changed_counterexample:
  "h_var (snd (call_GenerateHTML sample_env \<lparr> h_var = zero_Hermes, email_var = zero_Email \<rparr>))
     \<noteq> zero_Hermes \<and>
   h_var (snd (call_GeneratePlainText sample_env
       \<lparr> h_var = zero_Hermes, email_var = zero_Email \<rparr>)) \<noteq> zero_Hermes \<and>
   TextDirection (h_var (snd (call_GenerateHTML sample_env
       \<lparr> h_var = zero_Hermes, email_var = zero_Email \<rparr>))) = ''ltr''"
  by (simp add: call_GenerateHTML_def call_GeneratePlainText_def receiver_GenerateHTML
      receiver_GeneratePlainText mergo_Hermes_def mergo_string_def defaultHermes_def
      zero_Hermes_def)

text \<open>
  C2, amended: a call of \<open>GenerateHTML\<close> or \<open>GeneratePlainText\<close> replaces the
  caller-supplied engine configuration by its default-merged value (the value
  \<open>SetDefaultHermesValues\<close> leaves in it) and changes it in no other way; a second call
  changes nothing further, and a fully populated configuration is left unchanged.
\<close>

theorem caller_Hermes_merged_in_place:
  "h_var (snd (call_GenerateHTML env c)) = snd (SetDefaultHermesValues env (h_var c)) \<and>
   h_var (snd (call_GeneratePlainText env c)) = snd (SetDefaultHermesValues env (h_var c)) \<and>
   h_var (snd (call_GenerateHTML env (snd (call_GenerateHTML env c)))) =
     h_var (snd (call_GenerateHTML env c)) \<and>
   h_var (snd (call_GeneratePlainText env (snd (call_GeneratePlainText env c)))) =
     h_var (snd (call_GeneratePlainText env c)) \<and>
   (populated_Hermes (h_var c) \<longrightarrow>
      h_var (snd (call_GenerateHTML env c)) = h_var c \<and>
      h_var (snd (call_GeneratePlainText env c)) = h_var c)"
  by (simp add: call_GenerateHTML_def call_GeneratePlainText_def Let_def receiver_GenerateHTML
      receiver_GeneratePlainText SetDefaultHermesValues_eq mergo_Hermes_idem
      mergo_Hermes_populated)

text \<open>The amended C2 at a fully populated configuration.\<close>

theorem caller_Hermes_merged_in_place_witness:
  "populated_Hermes full_Hermes \<and>
   h_var (snd (call_GenerateHTML sample_env \<lparr> h_var = full_Hermes, email_var = zero_Email \<rparr>))
     = full_Hermes \<and>
   h_var (snd (call_GeneratePlainText sample_env
       \<lparr> h_var = full_Hermes, email_var = zero_Email \<rparr>)) = full_Hermes"
proof -
  let ?c = "\<lparr> h_var = full_Hermes, email_var = zero_Email \<rparr>"
  have p: "populated_Hermes (h_var ?c)"
    by (simp add: populated_Hermes_def full_Hermes_def)
  from caller_Hermes_merged_in_place [of sample_env ?c]
  have "populated_Hermes (h_var ?c) \<longrightarrow>
      h_var (snd (call_GenerateHTML sample_env ?c)) = h_var ?c \<and>
      h_var (snd (call_GeneratePlainText sample_env ?c)) = h_var ?c"
    by blast
  with p show ?thesis by simp
qed

subsection \<open>C3: what the default merge fills and what it keeps\<close>

text \<open>
  C3: for every e-mail and every engine configuration the two default merges return no
  error and produce a value in which each field that has a default holds the default if
  it held its zero value before (greeting \<open>Hi\<close>, signature \<open>Yours truly\<close>, text direction
  \<open>ltr\<close>, brand name \<open>Hermes\<close>, the copyright and trouble-text boilerplate, the built-in
  theme) and its previous value otherwise, and every other field holds its previous
  value. The default of the intros, the dictionary and the outros is the empty slice: a
  slice of length 0 stays a slice of length 0, any other is kept.
\<close>

theorem default_merge_fills_zero_fields_only:
  "fst (SetDefaultEmailValues e) = None \<and>
   Intros (Body (snd (SetDefaultEmailValues e))) = Intros (Body e) \<and>
   Dictionary (Body (snd (SetDefaultEmailValues e))) = Dictionary (Body e) \<and>
   Outros (Body (snd (SetDefaultEmailValues e))) = Outros (Body e) \<and>
   Greeting (Body (snd (SetDefaultEmailValues e))) =
     (if Greeting (Body e) = [] then ''Hi'' else Greeting (Body e)) \<and>
   Signature (Body (snd (SetDefaultEmailValues e))) =
     (if Signature (Body e) = [] then ''Yours truly'' else Signature (Body e)) \<and>
   Body.Name (Body (snd (SetDefaultEmailValues e))) = Body.Name (Body e) \<and>
   Table (Body (snd (SetDefaultEmailValues e))) = Table (Body e) \<and>
   Actions (Body (snd (SetDefaultEmailValues e))) = Actions (Body e) \<and>
   Title (Body (snd (SetDefaultEmailValues e))) = Title (Body e) \<and>
   FreeMarkdown (Body (snd (SetDefaultEmailValues e))) = FreeMarkdown (Body e) \<and>
   fst (SetDefaultHermesValues env h) = None \<and>
   TextDirection (snd (SetDefaultHermesValues env h)) =
     (if TextDirection h = [] then ''ltr'' else TextDirection h) \<and>
   Branding.Name (Brand (snd (SetDefaultHermesValues env h))) =
     (if Branding.Name (Brand h) = [] then ''Hermes'' else Branding.Name (Brand h)) \<and>
   Copyright (Brand (snd (SetDefaultHermesValues env h))) =
     (if Copyright (Brand h) = []
      then ''Copyright '' @ [CHR 0xC2, CHR 0xA9] @ '' 2024 Hermes. All rights reserved.''
      else Copyright (Brand h)) \<and>
   TroubleText (Brand (snd (SetDefaultHermesValues env h))) =
     (if TroubleText (Brand h) = []
      then ''If you'' @ [CHR 0xE2, CHR 0x80, CHR 0x99]
             @ ''re having trouble with the button '' @ [CHR 0x27] @ ''{ACTION}'' @ [CHR 0x27]
             @ '', copy and paste the URL below into your web browser.''
      else TroubleText (Brand h)) \<and>
   Theme (snd (SetDefaultHermesValues env h)) =
     (case Theme h of None \<Rightarrow> Some (themes_Default env) | Some theme \<Rightarrow> Some theme) \<and>
   Branding.Link (Brand (snd (SetDefaultHermesValues env h))) = Branding.Link (Brand h) \<and>
   Logo (Brand (snd (SetDefaultHermesValues env h))) = Logo (Brand h) \<and>
   DisableCSSInlining (snd (SetDefaultHermesValues env h)) = DisableCSSInlining h"
  by (cases e, cases h)
     (simp add: SetDefaultEmailValues_eq SetDefaultHermesValues_eq mergo_Email_def mergo_Body_def
      mergo_Table_def mergo_Columns_def mergo_Hermes_def mergo_Branding_def mergo_string_def
      mergo_slice_def mergo_bool_def mergo_interface_def mergo_map_empty defaultEmail_def
      defaultHermes_def split: option.splits)

text \<open>
  C3 at a partly filled e-mail and a partly filled configuration: the caller's name,
  intro, greeting, brand name, link and inlining flag are kept, the signature, the text
  direction and the theme are filled.
\<close>

theorem default_merge_fills_zero_fields_only_witness:
  "Body.Name (Body (snd (SetDefaultEmailValues partial_Email))) = ''Jon Snow'' \<and>
   Intros (Body (snd (SetDefaultEmailValues partial_Email))) = [''Welcome!''] \<and>
   Outros (Body (snd (SetDefaultEmailValues partial_Email))) = [] \<and>
   Greeting (Body (snd (SetDefaultEmailValues partial_Email))) = ''Dear'' \<and>
   Signature (Body (snd (SetDefaultEmailValues partial_Email))) = ''Yours truly'' \<and>
   Branding.Name (Brand (snd (SetDefaultHermesValues sample_env partial_Hermes))) = ''Acme'' \<and>
   Branding.Link (Brand (snd (SetDefaultHermesValues sample_env partial_Hermes))) =
     ''https://example-hermes.com/'' \<and>
   TextDirection (snd (SetDefaultHermesValues sample_env partial_Hermes)) = ''ltr'' \<and>
   Theme (snd (SetDefaultHermesValues sample_env partial_Hermes)) =
     Some (themes_Default sample_env) \<and>
   DisableCSSInlining (snd (SetDefaultHermesValues sample_env partial_Hermes))"
  using default_merge_fills_zero_fields_only [of partial_Email sample_env partial_Hermes]
  by (simp add: partial_Email_def partial_Hermes_def zero_Email_def zero_Hermes_def)

subsection \<open>C4: idempotence of the default merge\<close>

text \<open>
  C4: the default merge of a fully populated e-mail, and of a fully populated engine
  configuration, returns no error and leaves the value as it was. Moreover, for every
  e-mail and every configuration, merging the defaults a second time gives what the
  first merge gave.
\<close>

theorem default_merge_idempotent:
  "(populated_Email e \<longrightarrow> SetDefaultEmailValues e = (None, e)) \<and>
   (populated_Hermes h \<longrightarrow> SetDefaultHermesValues env h = (None, h)) \<and>
   SetDefaultEmailValues (snd (SetDefaultEmailValues e)) = SetDefaultEmailValues e \<and>
   SetDefaultHermesValues env (snd (SetDefaultHermesValues env h)) = SetDefaultHermesValues env h"
  by (simp add: SetDefaultEmailValues_eq SetDefaultHermesValues_eq mergo_Email_populated
      mergo_Hermes_populated mergo_Email_idem mergo_Hermes_idem)

text \<open>C4 at a fully populated e-mail and a fully populated configuration.\<close>

theorem default_merge_idempotent_witness:
  "populated_Email full_Email \<and> SetDefaultEmailValues full_Email = (None, full_Email) \<and>
   populated_Hermes full_Hermes \<and>
   SetDefaultHermesValues sample_env full_Hermes = (None, full_Hermes)"
proof -
  have p: "populated_Email full_Email"
    by (simp add: populated_Email_def full_Email_def zero_Email_def)
  have q: "populated_Hermes full_Hermes"
    by (simp add: populated_Hermes_def full_Hermes_def)
  from default_merge_idempotent [of full_Email full_Hermes sample_env] p q
  show ?thesis by blast
qed

subsection \<open>C5: GenerateHTML with CSS inlining disabled\<close>

text \<open>
  C5: when \<open>DisableCSSInlining\<close> is set, \<open>GenerateHTML\<close> calls neither
  \<open>NewPremailerFromString\<close> nor \<open>Transform\<close>; what it gives does not depend on what the
  premailer would do with the rendered text (so not on malformed style content either);
  and when the theme's HTML template parses and executes, the string returned is the
  output of the execution, byte for byte, with the nil error.
\<close>

theorem GenerateHTML_DisableCSSInlining:
  assumes "DisableCSSInlining h"
  shows "Premailer_NewPremailerFromString \<notin> set (calls (GenerateHTML env h email)) \<and>
         Premailer_Transform \<notin> set (calls (GenerateHTML env h email)) \<and>
         GenerateHTML
           (env\<lparr> premailer_NewPremailerFromString := new, premailer_Transform := transform \<rparr>)
           h email = GenerateHTML env h email \<and>
         (Theme (snd (SetDefaultHermesValues env h)) = Some theme \<and>
          template_Parse env (HTMLTemplate theme) = Inr t \<and>
          template_Execute env t
            \<lparr> Hermes = snd (SetDefaultHermesValues env h),
              Email = snd (SetDefaultEmailValues email) \<rparr> = (res, None) \<longrightarrow>
          result (GenerateHTML env h email) = Return res None)"
proof -
  let ?h' = "mergo_Hermes h (defaultHermes env)"
  from assms have d: "DisableCSSInlining ?h'"
    by (simp add: DisableCSSInlining_merged)
  have gt: "\<And>e tplt. generateTemplate e ?h' email tplt =
     (case template_Parse e tplt of
        Inl err \<Rightarrow> (([], Some err), [Mergo_Merge_Email, Template_Parse])
      | Inr t \<Rightarrow>
          (case template_Execute e t
                  \<lparr> Hermes = ?h', Email = snd (SetDefaultEmailValues email) \<rparr> of
             (b, Some err) \<Rightarrow>
               (([], Some err), [Mergo_Merge_Email, Template_Parse, Template_Execute])
           | (res, None) \<Rightarrow>
               ((res, None), [Mergo_Merge_Email, Template_Parse, Template_Execute])))"
    using d by (rule generateTemplate_disabled)
  have c1: "Premailer_NewPremailerFromString \<notin> set (calls (GenerateHTML env h email))"
    by (simp add: GenerateHTML_def SetDefaultHermesValues_eq Theme_merged gt
        split: sum.splits prod.splits option.splits)
  have c2: "Premailer_Transform \<notin> set (calls (GenerateHTML env h email))"
    by (simp add: GenerateHTML_def SetDefaultHermesValues_eq Theme_merged gt
        split: sum.splits prod.splits option.splits)
  have c3: "GenerateHTML (env\<lparr> premailer_NewPremailerFromString := new,
              premailer_Transform := transform \<rparr>) h email = GenerateHTML env h email"
    by (simp add: GenerateHTML_def SetDefaultHermesValues_eq Theme_merged gt
        defaultHermes_premailer_update split: sum.splits)
  have c4: "Theme (snd (SetDefaultHermesValues env h)) = Some theme \<and>
          template_Parse env (HTMLTemplate theme) = Inr t \<and>
          template_Execute env t
            \<lparr> Hermes = snd (SetDefaultHermesValues env h),
              Email = snd (SetDefaultEmailValues email) \<rparr> = (res, None) \<longrightarrow>
          result (GenerateHTML env h email) = Return res None"
    by (simp add: GenerateHTML_def SetDefaultHermesValues_eq gt)
  from c1 c2 c3 c4 show ?thesis by blast
qed

text \<open>
  C5 at a configuration with inlining disabled, with a premailer that rejects every
  input: the rendered text is returned as it is.
\<close>

theorem GenerateHTML_DisableCSSInlining_witness:
  "DisableCSSInlining inlining_disabled_Hermes \<and>
   result (GenerateHTML
      (sample_env\<lparr> premailer_NewPremailerFromString := (\<lambda>s. Inl (Error ''malformed style'')),
                   premailer_Transform := (\<lambda>p. ([], Some (Error ''malformed style''))) \<rparr>)
      inlining_disabled_Hermes zero_Email) = Return ''<p>html</p>Hi'' None \<and>
   Premailer_NewPremailerFromString \<notin>
     set (calls (GenerateHTML sample_env inlining_disabled_Hermes zero_Email)) \<and>
   Premailer_Transform \<notin>
     set (calls (GenerateHTML sample_env inlining_disabled_Hermes zero_Email))"
proof -
  have d: "DisableCSSInlining inlining_disabled_Hermes"
    by (simp add: inlining_disabled_Hermes_def)
  have th: "Theme (snd (SetDefaultHermesValues sample_env inlining_disabled_Hermes)) =
      Some (themes_Default sample_env)"
    by (simp add: SetDefaultHermesValues_eq Theme_merged inlining_disabled_Hermes_def
        zero_Hermes_def)
  have pa: "template_Parse sample_env (HTMLTemplate (themes_Default sample_env)) =
      Inr ''<p>html</p>''"
    by (simp add: sample_env_def)
  have ex: "template_Execute sample_env ''<p>html</p>''
      \<lparr> Hermes = snd (SetDefaultHermesValues sample_env inlining_disabled_Hermes),
        Email = snd (SetDefaultEmailValues zero_Email) \<rparr> = (''<p>html</p>Hi'', None)"
    by (simp add: sample_env_def SetDefaultEmailValues_eq mergo_Email_def mergo_Body_def
        mergo_string_def defaultEmail_def zero_Email_def)
  from GenerateHTML_DisableCSSInlining [OF d, where env = sample_env and email = zero_Email
      and new = "\<lambda>s. Inl (Error ''malformed style'')"
      and transform = "\<lambda>p. ([], Some (Error ''malformed style''))"
      and theme = "themes_Default sample_env" and t = "''<p>html</p>''"
      and res = "''<p>html</p>Hi''"] d th pa ex
  show ?thesis by simp
qed

subsection \<open>C6: no partial output beside an error\<close>

text \<open>
  C6: \<open>GenerateHTML\<close> and \<open>GeneratePlainText\<close> always return (they do not panic), and
  whenever the error returned is not nil the string returned is empty. The last
  statement of \<open>GeneratePlainText\<close> hands on the two results of \<open>html2text.FromString\<close>
  as they are, so for it the statement rests on the library returning the empty string
  beside every error, which is assumed of the parameter; every other error return of the
  two functions is a \<open>return "", err\<close> of the source, also where the buffer already holds
  partial output of the template.
\<close>

theorem error_returns_empty_string:
  "(\<exists>s err. result (GenerateHTML env h email) = Return s err \<and> (err \<noteq> None \<longrightarrow> s = [])) \<and>
   ((\<forall>x. snd (html2text_FromString env x) \<noteq> None \<longrightarrow> fst (html2text_FromString env x) = [])
    \<longrightarrow> (\<exists>s err. result (GeneratePlainText env h email) = Return s err \<and>
                   (err \<noteq> None \<longrightarrow> s = [])))"
proof (intro conjI impI)
  obtain s err where r: "result (GenerateHTML env h email) = Return s err"
    using GenerateHTML_returns by blast
  have "err \<noteq> None \<longrightarrow> s = []"
    using r
    by (auto simp add: GenerateHTML_def SetDefaultHermesValues_eq
        split: prod.splits option.splits dest: generateTemplate_error_empty)
  with r show "\<exists>s err. result (GenerateHTML env h email) = Return s err \<and>
      (err \<noteq> None \<longrightarrow> s = [])"
    by blast
next
  assume a: "\<forall>x. snd (html2text_FromString env x) \<noteq> None \<longrightarrow>
                 fst (html2text_FromString env x) = []"
  have lib: "\<And>x t e. html2text_FromString env x = (t, Some e) \<Longrightarrow> t = []"
  proof -
    fix x t e
    assume "html2text_FromString env x = (t, Some e)"
    with a show "t = []" by (metis fst_conv snd_conv option.distinct(1))
  qed
  obtain s err where r: "result (GeneratePlainText env h email) = Return s err"
    using GeneratePlainText_returns by blast
  have "err \<noteq> None \<longrightarrow> s = []"
    using r
    by (auto simp add: GeneratePlainText_def SetDefaultHermesValues_eq
        split: prod.splits option.splits dest: lib)
  with r show "\<exists>s err. result (GeneratePlainText env h email) = Return s err \<and>
      (err \<noteq> None \<longrightarrow> s = [])"
    by blast
qed

text \<open>
  C6 at a theme whose templates do not parse, and, for the plain-text path, with a text
  converter that fails (returning the empty string beside its error).
\<close>

theorem error_returns_empty_string_witness:
  "result (GenerateHTML sample_env broken_Hermes zero_Email) =
     Return [] (Some (Error ''unclosed action'')) \<and>
   (\<forall>x. fst (html2text_FromString failing_html2text_env x) = []) \<and>
   result (GeneratePlainText failing_html2text_env zero_Hermes zero_Email) =
     Return [] (Some (Error ''html2text''))"
  using error_returns_empty_string [of sample_env broken_Hermes zero_Email]
    error_returns_empty_string [of failing_html2text_env zero_Hermes zero_Email]
  by (simp add: sample_simps)

subsection \<open>C7: a template that does not parse\<close>

text \<open>
  C7: let the theme of the configuration (the caller's, or the built-in one when the
  caller chose none) have a template text the parser rejects. Building the configuration
  and merging the defaults raise no error (a theme is never parsed before a render
  call); \<open>GenerateHTML\<close>, for the HTML template, and \<open>GeneratePlainText\<close>, for the
  plain-text template, return the empty string and the very error of the parser, and
  the parse is the last library call they make.
\<close>

theorem parse_error_returned:
  assumes "Theme (snd (SetDefaultHermesValues env h)) = Some theme"
  shows "fst (SetDefaultHermesValues env h) = None \<and>
         (template_Parse env (HTMLTemplate theme) = Inl err \<longrightarrow>
            result (GenerateHTML env h email) = Return [] (Some err) \<and>
            calls (GenerateHTML env h email) =
              [Mergo_Merge_Hermes, Mergo_Merge_Email, Template_Parse]) \<and>
         (template_Parse env (PlainTextTemplate theme) = Inl err \<longrightarrow>
            result (GeneratePlainText env h email) = Return [] (Some err) \<and>
            calls (GeneratePlainText env h email) =
              [Mergo_Merge_Hermes, Mergo_Merge_Email, Template_Parse])"
  using assms
  by (simp add: GenerateHTML_def GeneratePlainText_def generateTemplate_def
      SetDefaultHermesValues_eq SetDefaultEmailValues_eq)

text \<open>C7 at a theme whose two templates are the unclosed action \<open>{{\<close>.\<close>

theorem parse_error_returned_witness:
  "template_Parse sample_env ''{{'' = Inl (Error ''unclosed action'') \<and>
   result (GenerateHTML sample_env broken_Hermes zero_Email) =
     Return [] (Some (Error ''unclosed action'')) \<and>
   result (GeneratePlainText sample_env broken_Hermes zero_Email) =
     Return [] (Some (Error ''unclosed action''))"
proof -
  let ?theme = "\<lparr> Theme.Name = ''broken'', HTMLTemplate = ''{{'', PlainTextTemplate = ''{{'' \<rparr>"
  have th: "Theme (snd (SetDefaultHermesValues sample_env broken_Hermes)) = Some ?theme"
    by (simp add: SetDefaultHermesValues_eq Theme_merged broken_Hermes_def)
  have pa: "template_Parse sample_env ''{{'' = Inl (Error ''unclosed action'')"
    by (simp add: sample_env_def)
  from parse_error_returned [OF th, of "Error ''unclosed action''" zero_Email] pa
  show ?thesis by simp
qed

subsection \<open>C8: Markdown.ToHTML\<close>

text \<open>
  C8 (\<open>ToHTML\<close> has no error path and gives the same output on every run) is not settled
  here. \<open>ToHTML\<close> has one result and is \<open>blackfriday.Run\<close> on the bytes of its argument;
  whether \<open>Run\<close> returns for every input, and returns the same bytes every time, is a
  property of the library, whose code is not among the sources. A statement about
  \<open>ToHTML\<close> in which the library is a function of its input would hold of any function.
\<close>

subsection \<open>C9: an empty greeting or signature\<close>

text \<open>
  C9: when the greeting of an e-mail is the empty string, \<open>SetDefaultEmailValues\<close> sets
  it to \<open>Hi\<close>; when the signature is the empty string, it sets it to \<open>Yours truly\<close>. The
  fields are plain strings, so a string left unset and a string set to empty are the
  same value.
\<close>

theorem empty_Greeting_Signature_overwritten:
  "(Greeting (Body e) = [] \<longrightarrow> Greeting (Body (snd (SetDefaultEmailValues e))) = ''Hi'') \<and>
   (Signature (Body e) = [] \<longrightarrow>
      Signature (Body (snd (SetDefaultEmailValues e))) = ''Yours truly'')"
  by (simp add: SetDefaultEmailValues_eq mergo_Email_def mergo_Body_def mergo_string_def
      defaultEmail_def)

text \<open>C9 at the zero e-mail.\<close>

theorem empty_Greeting_Signature_overwritten_witness:
  "Greeting (Body zero_Email) = [] \<and> Signature (Body zero_Email) = [] \<and>
   Greeting (Body (snd (SetDefaultEmailValues zero_Email))) = ''Hi'' \<and>
   Signature (Body (snd (SetDefaultEmailValues zero_Email))) = ''Yours truly''"
proof -
  have z: "Greeting (Body zero_Email) = []" "Signature (Body zero_Email) = []"
    by (simp_all add: zero_Email_def)
  from empty_Greeting_Signature_overwritten [of zero_Email] z
  show ?thesis by blast
qed

subsection \<open>C10: the caller's e-mail\<close>



end
